theory Spec2Isabelle
  imports Main
begin

section \<open>The face-enrollment flow of \<open>FaceRegistration.tsx\<close>\<close>

text \<open>
  The component \<open>FaceRegistration\<close> is a React function component. Its six \<open>useState\<close>
  cells are the session; everything else it touches (notifications, the console, the
  platform timer, the camera, the network, the callbacks of the parent) is collected in
  a record \<open>world\<close> around the session, so that every effect of a handler is a field
  update that a theorem can read.
\<close>

subsection \<open>Data\<close>

datatype step = Consent | Scanning | Completed

type_synonym track = nat

datatype media_stream = MediaStream (getTracks: "track list")

text \<open>
  \<open>useState\<close> cells, lines 22 to 27: \<open>hasPermission\<close> is \<open>boolean | null\<close>, \<open>stream\<close> is
  \<open>MediaStream | null\<close>.
\<close>

record session =
  currentStep :: step
  isScanning :: bool
  stream :: "media_stream option"
  hasPermission :: "bool option"
  consentChecked :: bool
  scannedFaceId :: string

text \<open>The props of the component (lines 8 to 19); \<open>visitorInfo\<close> is optional.\<close>

record visitor_info =
  name :: string
  company :: string
  visiting :: string
  visitorType :: string

record props =
  visitorName :: string
  visitorInfo :: "visitor_info option"

datatype callback = OnClose | OnFaceRegistered string | OnAutoCheckIn

text \<open>
  Exceptions that the two \<open>try\<close> blocks can see. The messages shown by \<open>toast\<close> are
  Swedish sentences; each is named by a constructor:
  \<^item> \<open>CameraUnavailable\<close>: "Kunde inte komma at kameran. Kontrollera behorigheter." (line 55)
  \<^item> \<open>FaceSaved\<close>: "Ansikte och personuppgifter sparade!" (line 107)
  \<^item> \<open>FaceNotSaved\<close>: "Kunde inte spara ansikte och uppgifter." (line 114)
  \<^item> \<open>ScanFailed\<close>: "Kunde inte skanna ansikte. Forsok igen." (line 119)
\<close>

datatype exn = TypeError | NetworkError | JsonError | MediaError

datatype message = CameraUnavailable | FaceSaved | FaceNotSaved | ScanFailed

datatype toast = ToastSuccess message | ToastError message

datatype json = JString string | JObject "(string \<times> json) list"

record http_request =
  url :: string
  http_method :: string
  headers :: "(string \<times> string) list"
  body :: json

text \<open>The constraints handed to \<open>getUserMedia\<close> (lines 39 to 45).\<close>

record media_constraints =
  ideal_width :: nat
  ideal_height :: nat
  facingMode :: string

text \<open>The parsed response of the enrollment service: \<open>data.status\<close> and \<open>data.face_id\<close>.\<close>

record scan_data =
  status :: string
  face_id :: string

datatype console_line =
  ConsoleError string exn
| ConsoleLog string scan_data

text \<open>
  What the platform answers at the two suspension points. \<open>getUserMedia\<close> resolves with
  a stream or rejects; \<open>fetch\<close> rejects, or resolves and then \<open>response.json()\<close> rejects or
  yields the parsed data.
\<close>

datatype camera_result = Granted media_stream | Denied

datatype fetch_result = FetchRejected | BodyRejected | Parsed scan_data

text \<open>
  The part of the DOM that frame capture reads: the result of
  \<open>document.querySelector('video')\<close> (\<open>null\<close> when no video element is on the page),
  whether \<open>getContext('2d')\<close> yields a context, and the platform's \<open>toDataURL\<close> encoder,
  taken as a parameter.
\<close>

record video =
  videoWidth :: nat
  videoHeight :: nat

record canvas =
  canvas_width :: nat
  canvas_height :: nat
  painted :: "video option"

record dom =
  query_video :: "video option"
  context_2d :: bool
  toDataURL :: "string \<Rightarrow> canvas \<Rightarrow> string"

record world =
  sess :: session
  toasts :: "toast list"
  console :: "console_line list"
  clock :: nat
  timers :: "(nat \<times> callback) list"
  invoked :: "callback list"
  ended :: "track set"
  camera_calls :: "media_constraints list"
  camera_inflight :: nat
  fetches :: "http_request list"
  fetch_inflight :: nat

definition initial_session :: session where
  "initial_session =
     \<lparr>currentStep = Consent, isScanning = False, stream = None, hasPermission = None,
      consentChecked = False, scannedFaceId = ''''\<rparr>"

definition initial_world :: world where
  "initial_world =
     \<lparr>sess = initial_session, toasts = [], console = [], clock = 0, timers = [],
      invoked = [], ended = {}, camera_calls = [], camera_inflight = 0, fetches = [],
      fetch_inflight = 0\<rparr>"

subsection \<open>State setters and platform calls\<close>

definition setCurrentStep :: "step \<Rightarrow> world \<Rightarrow> world" where
  "setCurrentStep v w = w\<lparr>sess := (sess w)\<lparr>currentStep := v\<rparr>\<rparr>"

definition setIsScanning :: "bool \<Rightarrow> world \<Rightarrow> world" where
  "setIsScanning v w = w\<lparr>sess := (sess w)\<lparr>isScanning := v\<rparr>\<rparr>"

definition setStream :: "media_stream option \<Rightarrow> world \<Rightarrow> world" where
  "setStream v w = w\<lparr>sess := (sess w)\<lparr>stream := v\<rparr>\<rparr>"

definition setHasPermission :: "bool option \<Rightarrow> world \<Rightarrow> world" where
  "setHasPermission v w = w\<lparr>sess := (sess w)\<lparr>hasPermission := v\<rparr>\<rparr>"

definition setConsentChecked :: "bool \<Rightarrow> world \<Rightarrow> world" where
  "setConsentChecked v w = w\<lparr>sess := (sess w)\<lparr>consentChecked := v\<rparr>\<rparr>"

definition setScannedFaceId :: "string \<Rightarrow> world \<Rightarrow> world" where
  "setScannedFaceId v w = w\<lparr>sess := (sess w)\<lparr>scannedFaceId := v\<rparr>\<rparr>"

definition toast_success :: "message \<Rightarrow> world \<Rightarrow> world" where
  "toast_success m w = w\<lparr>toasts := toasts w @ [ToastSuccess m]\<rparr>"

definition toast_error :: "message \<Rightarrow> world \<Rightarrow> world" where
  "toast_error m w = w\<lparr>toasts := toasts w @ [ToastError m]\<rparr>"

definition console_error :: "string \<Rightarrow> exn \<Rightarrow> world \<Rightarrow> world" where
  "console_error s e w = w\<lparr>console := console w @ [ConsoleError s e]\<rparr>"

definition console_log :: "string \<Rightarrow> scan_data \<Rightarrow> world \<Rightarrow> world" where
  "console_log s d w = w\<lparr>console := console w @ [ConsoleLog s d]\<rparr>"

text \<open>\<open>setTimeout(cb, ms)\<close>: the callback is due \<open>ms\<close> milliseconds after the present.\<close>

definition setTimeout :: "callback \<Rightarrow> nat \<Rightarrow> world \<Rightarrow> world" where
  "setTimeout cb ms w = w\<lparr>timers := timers w @ [(clock w + ms, cb)]\<rparr>"

text \<open>
  The passing of \<open>dt\<close> milliseconds: every timer that has become due runs its callback,
  in the order the timers were set, and is removed.
\<close>

definition advance :: "nat \<Rightarrow> world \<Rightarrow> world" where
  "advance dt w =
     (let t = clock w + dt
      in w\<lparr>clock := t,
           invoked := invoked w @ map snd (filter (\<lambda>p. fst p \<le> t) (timers w)),
           timers := filter (\<lambda>p. \<not> fst p \<le> t) (timers w)\<rparr>)"

text \<open>\<open>track.stop()\<close> ends a track; stopping an ended track changes nothing.\<close>

definition track_stop :: "track \<Rightarrow> world \<Rightarrow> world" where
  "track_stop t w = w\<lparr>ended := insert t (ended w)\<rparr>"

subsection \<open>Handlers\<close>

text \<open>
  \<open>startCamera\<close> (lines 37 to 57) suspends once, at \<open>await getUserMedia\<close>.
  \<open>startCamera\<close> below is the part before the suspension, \<open>startCamera_resume\<close> the
  part after it, with the \<open>catch\<close> block as the \<open>Denied\<close> branch. The assignment to
  \<open>videoRef.current.srcObject\<close> touches only the DOM video element and is left out.
\<close>

definition camera_constraints :: media_constraints where
  "camera_constraints = \<lparr>ideal_width = 640, ideal_height = 480, facingMode = ''user''\<rparr>"

definition startCamera :: "world \<Rightarrow> world" where
  "startCamera w =
     w\<lparr>camera_calls := camera_calls w @ [camera_constraints],
       camera_inflight := Suc (camera_inflight w)\<rparr>"

definition startCamera_resume :: "camera_result \<Rightarrow> world \<Rightarrow> world" where
  "startCamera_resume r w =
     (let w0 = w\<lparr>camera_inflight := camera_inflight w - 1\<rparr>
      in case r of
           Granted mediaStream \<Rightarrow> setHasPermission (Some True) (setStream (Some mediaStream) w0)
         | Denied \<Rightarrow>
             toast_error CameraUnavailable
               (setHasPermission (Some False)
                 (console_error ''Kunde inte starta kamera:'' MediaError w0)))"

text \<open>
  A handler is a closure of the render that created it: the state variables it reads
  are those of that render, while the setters it calls act on the present state. The two
  handlers that read state, \<open>handleConsentAccepted\<close> (\<open>consentChecked\<close>) and \<open>stopCamera\<close>
  (\<open>stream\<close>), therefore take the session of their render as a first argument \<open>snap\<close>.
\<close>

definition handleConsentAccepted :: "session \<Rightarrow> world \<Rightarrow> world" where
  "handleConsentAccepted snap w =
     (if \<not> consentChecked snap then w
      else startCamera (setCurrentStep Scanning w))"

definition stopCamera :: "session \<Rightarrow> world \<Rightarrow> world" where
  "stopCamera snap w =
     (case stream snap of
        None \<Rightarrow> w
      | Some s \<Rightarrow> setStream None (fold track_stop (getTracks s) w))"

text \<open>
  The effect of lines 66 to 70 has an empty dependency list: it runs after the first
  render only, and the cleanup it returns calls the \<open>stopCamera\<close> of that first render,
  whose \<open>stream\<close> is the initial value of the state cell.
\<close>

definition unmount :: "world \<Rightarrow> world" where
  "unmount w = stopCamera initial_session w"

text \<open>\<open>stopCamera\<close> as the present render defines it: its closure sees the present session.\<close>

definition release :: "world \<Rightarrow> world" where
  "release w = stopCamera (sess w) w"

subsection \<open>Capture and submission\<close>

text \<open>Lines 77 to 85: any of the reads can throw, which is the \<open>Inl\<close> branch.\<close>

definition capture_frame :: "dom \<Rightarrow> exn + string" where
  "capture_frame d =
     (case query_video d of
        None \<Rightarrow> Inl TypeError
      | Some v \<Rightarrow>
          (let c = \<lparr>canvas_width = videoWidth v, canvas_height = videoHeight v, painted = None\<rparr>
           in if \<not> context_2d d then Inl TypeError
              else Inr (toDataURL d ''image/jpeg'' (c\<lparr>painted := Some v\<rparr>))))"

definition visitor_json :: "visitor_info \<Rightarrow> json" where
  "visitor_json v =
     JObject [(''name'', JString (name v)), (''company'', JString (company v)),
              (''visiting'', JString (visiting v)), (''visitorType'', JString (visitorType v))]"

definition payload_visitor :: "props \<Rightarrow> visitor_info" where
  "payload_visitor p =
     (case visitorInfo p of
        Some v \<Rightarrow> v
      | None \<Rightarrow> \<lparr>name = visitorName p, company = '''', visiting = '''', visitorType = ''regular''\<rparr>)"

definition scan_request :: "props \<Rightarrow> string \<Rightarrow> http_request" where
  "scan_request p imageBase64 =
     \<lparr>url = ''http://localhost:5000/api/scan-face'',
      http_method = ''POST'',
      headers = [(''Content-Type'', ''application/json'')],
      body = JObject [(''image'', JString imageBase64),
                      (''visitorInfo'', visitor_json (payload_visitor p))]\<rparr>"

definition fetch :: "http_request \<Rightarrow> world \<Rightarrow> world" where
  "fetch r w = w\<lparr>fetches := fetches w @ [r], fetch_inflight := Suc (fetch_inflight w)\<rparr>"

definition catch_block :: "exn \<Rightarrow> world \<Rightarrow> world" where
  "catch_block e w = toast_error ScanFailed (console_error ''Fel vid ansiktsskanning:'' e w)"

definition finally_block :: "world \<Rightarrow> world" where
  "finally_block w = setIsScanning False w"

text \<open>
  \<open>captureAndScanFace\<close> (lines 72 to 123) suspends at \<open>await fetch\<close> and again at
  \<open>await response.json()\<close>; it writes nothing between the two, so they are taken as one
  suspension with three answers. \<open>captureAndScanFace_start\<close> runs up to the suspension,
  or to the end when frame capture throws; \<open>captureAndScanFace_resume\<close> runs from the
  answer of the network to the end. The counters of requests in flight are bookkeeping
  of the platform: a continuation runs only for a request that is in flight (see
  \<open>fire\<close>), so the subtraction never meets zero there.
\<close>

datatype phase = AwaitingFetch world | Finished world

definition captureAndScanFace_start :: "props \<Rightarrow> dom \<Rightarrow> world \<Rightarrow> phase" where
  "captureAndScanFace_start p d w =
     (let w1 = setIsScanning True w
      in case capture_frame d of
           Inl e \<Rightarrow> Finished (finally_block (catch_block e w1))
         | Inr imageBase64 \<Rightarrow> AwaitingFetch (fetch (scan_request p imageBase64) w1))"

definition on_data :: "scan_data \<Rightarrow> world \<Rightarrow> world" where
  "on_data data w =
     (let w1 = console_log ''Scan response:'' data w
      in if status data = ''success''
         then setTimeout OnAutoCheckIn 1000
                (toast_success FaceSaved (setScannedFaceId (face_id data) w1))
         else toast_error FaceNotSaved w1)"

definition captureAndScanFace_resume :: "fetch_result \<Rightarrow> world \<Rightarrow> world" where
  "captureAndScanFace_resume r w =
     (let w0 = w\<lparr>fetch_inflight := fetch_inflight w - 1\<rparr>
      in finally_block
           (case r of
              FetchRejected \<Rightarrow> catch_block NetworkError w0
            | BodyRejected \<Rightarrow> catch_block JsonError w0
            | Parsed data \<Rightarrow> on_data data w0))"

text \<open>One whole invocation, from the click to the end of the \<open>finally\<close> block.\<close>

definition captureAndScanFace :: "props \<Rightarrow> dom \<Rightarrow> fetch_result \<Rightarrow> world \<Rightarrow> world" where
  "captureAndScanFace p d r w =
     (case captureAndScanFace_start p d w of
        Finished w' \<Rightarrow> w'
      | AwaitingFetch w' \<Rightarrow> captureAndScanFace_resume r w')"

subsection \<open>Rendering\<close>

text \<open>
  Which screen the JSX of lines 125 to 262 shows, and for each control on it whether it
  is disabled. The early return of line 125 comes first.
\<close>

datatype screen = PermissionDialog | ConsentScreen | ScanningScreen | CompletedScreen

datatype control =
  CloseButton | CancelButton | ConsentCheckbox | ContinueButton | RetryButton | CaptureButton

definition render :: "session \<Rightarrow> screen" where
  "render s =
     (if hasPermission s = Some False \<and> currentStep s = Scanning then PermissionDialog
      else case currentStep s of
             Consent \<Rightarrow> ConsentScreen
           | Scanning \<Rightarrow> ScanningScreen
           | Completed \<Rightarrow> CompletedScreen)"

text \<open>Each control with its \<open>disabled\<close> attribute.\<close>

definition controls :: "session \<Rightarrow> (control \<times> bool) list" where
  "controls s =
     (case render s of
        PermissionDialog \<Rightarrow>
          [(CloseButton, False), (CancelButton, False), (RetryButton, False)]
      | ConsentScreen \<Rightarrow>
          [(CloseButton, False), (ConsentCheckbox, False), (CancelButton, False),
           (ContinueButton, \<not> consentChecked s)]
      | ScanningScreen \<Rightarrow>
          [(CloseButton, False), (CancelButton, False),
           (CaptureButton, isScanning s \<or> stream s = None)]
      | CompletedScreen \<Rightarrow> [(CloseButton, False)])"

definition enabled :: "session \<Rightarrow> control \<Rightarrow> bool" where
  "enabled s c = ((c, False) \<in> set (controls s))"

definition disabled :: "session \<Rightarrow> control \<Rightarrow> bool" where
  "disabled s c = ((c, True) \<in> set (controls s))"

subsection \<open>Events\<close>

text \<open>
  What can happen to a mounted component: the user operates a control (which calls its
  handler only when the control is on the screen and not disabled), the camera or the
  network answers a request in flight, or time passes.
\<close>

datatype event =
  Check bool
| ClickClose
| ClickCancel
| ClickContinue
| ClickRetry
| ClickCapture dom
| CameraAnswer camera_result
| FetchAnswer fetch_result
| Tick nat

definition onClose :: "world \<Rightarrow> world" where
  "onClose w = w\<lparr>invoked := invoked w @ [OnClose]\<rparr>"

definition fire :: "props \<Rightarrow> event \<Rightarrow> world \<Rightarrow> world" where
  "fire p e w =
     (case e of
        Check b \<Rightarrow> if enabled (sess w) ConsentCheckbox then setConsentChecked b w else w
      | ClickClose \<Rightarrow> if enabled (sess w) CloseButton then onClose w else w
      | ClickCancel \<Rightarrow> if enabled (sess w) CancelButton then onClose w else w
      | ClickContinue \<Rightarrow>
          if enabled (sess w) ContinueButton then handleConsentAccepted (sess w) w else w
      | ClickRetry \<Rightarrow> if enabled (sess w) RetryButton then startCamera w else w
      | ClickCapture d \<Rightarrow>
          if enabled (sess w) CaptureButton
          then (case captureAndScanFace_start p d w of
                  Finished w' \<Rightarrow> w' | AwaitingFetch w' \<Rightarrow> w')
          else w
      | CameraAnswer r \<Rightarrow> if 0 < camera_inflight w then startCamera_resume r w else w
      | FetchAnswer r \<Rightarrow> if 0 < fetch_inflight w then captureAndScanFace_resume r w else w
      | Tick dt \<Rightarrow> advance dt w)"

text \<open>A run of the mounted component: the events in order, from the left.\<close>

definition run :: "props \<Rightarrow> event list \<Rightarrow> world \<Rightarrow> world" where
  "run p evs w = foldl (\<lambda>w e. fire p e w) w evs"

text \<open>Whether the service accepted the submission: \<open>data.status === 'success'\<close>.\<close>

definition accepted :: "fetch_result \<Rightarrow> bool" where
  "accepted r = (case r of Parsed data \<Rightarrow> status data = ''success'' | _ \<Rightarrow> False)"

text \<open>Whether one whole invocation ends in the success branch of line 105.\<close>

definition succeeds :: "dom \<Rightarrow> fetch_result \<Rightarrow> bool" where
  "succeeds d r = (case capture_frame d of Inl e \<Rightarrow> False | Inr img \<Rightarrow> accepted r)"

subsection \<open>Sample inputs\<close>

definition sample_props :: props where
  "sample_props = \<lparr>visitorName = ''Ada'', visitorInfo = None\<rparr>"

definition sample_visitor :: visitor_info where
  "sample_visitor =
     \<lparr>name = ''Ada'', company = ''Analytical'', visiting = ''Charles'', visitorType = ''service''\<rparr>"

definition sample_stream :: media_stream where
  "sample_stream = MediaStream [0]"

definition sample_dom :: dom where
  "sample_dom =
     \<lparr>query_video = Some \<lparr>videoWidth = 640, videoHeight = 480\<rparr>, context_2d = True,
      toDataURL = (\<lambda>mime c. ''data:'' @ mime @ '';base64,AAAA'')\<rparr>"

text \<open>The same page without a video element: frame capture throws.\<close>

definition no_video_dom :: dom where
  "no_video_dom = sample_dom\<lparr>query_video := None\<rparr>"

text \<open>Consent given and continue pressed: the scanning step, the camera not yet answered.\<close>

definition awaiting_camera_world :: world where
  "awaiting_camera_world = run sample_props [Check True, ClickContinue] initial_world"

text \<open>Then the camera is granted: the scanning screen with a live stream.\<close>

definition scanning_world :: world where
  "scanning_world =
     run sample_props [Check True, ClickContinue, CameraAnswer (Granted sample_stream)]
       initial_world"

section \<open>Properties\<close>

subsection \<open>Unfolding\<close>

lemmas setters =
  setCurrentStep_def setIsScanning_def setStream_def setHasPermission_def
  setConsentChecked_def setScannedFaceId_def

lemmas effects =
  toast_success_def toast_error_def console_error_def console_log_def setTimeout_def
  fetch_def onClose_def

lemmas capture_defs =
  captureAndScanFace_def captureAndScanFace_start_def captureAndScanFace_resume_def
  on_data_def catch_block_def finally_block_def

lemmas view_defs = enabled_def disabled_def controls_def render_def

lemmas sample_defs =
  sample_props_def sample_stream_def sample_dom_def initial_world_def initial_session_def

lemma awaiting_camera_world_eq:
  "awaiting_camera_world =
     initial_world
       \<lparr>sess := \<lparr>currentStep = Scanning, isScanning = False, stream = None,
                 hasPermission = None, consentChecked = True, scannedFaceId = []\<rparr>,
        camera_calls := [camera_constraints], camera_inflight := 1\<rparr>"
  by (simp add: awaiting_camera_world_def run_def fire_def view_defs setters
      handleConsentAccepted_def startCamera_def sample_defs)

lemma scanning_world_eq:
  "scanning_world =
     initial_world
       \<lparr>sess := \<lparr>currentStep = Scanning, isScanning = False, stream = Some sample_stream,
                 hasPermission = Some True, consentChecked = True, scannedFaceId = []\<rparr>,
        camera_calls := [camera_constraints]\<rparr>"
  by (simp add: scanning_world_def run_def fire_def view_defs setters
      handleConsentAccepted_def startCamera_def startCamera_resume_def sample_defs)

lemma capture_frame_sample: "capture_frame sample_dom = Inr ''data:image/jpeg;base64,AAAA''"
  by (simp add: capture_frame_def sample_dom_def)

lemma capture_frame_no_video: "capture_frame no_video_dom = Inl TypeError"
  by (simp add: capture_frame_def no_video_dom_def)

subsection \<open>Releasing the camera\<close>

lemma fold_track_stop_eq: "fold track_stop ts w = w\<lparr>ended := ended w \<union> set ts\<rparr>"
  by (induction ts arbitrary: w) (simp_all add: track_stop_def insert_commute Un_commute)

lemma stopCamera_eq:
  "stopCamera snap w =
     (case stream snap of
        None \<Rightarrow> w
      | Some s \<Rightarrow>
          w\<lparr>sess := (sess w)\<lparr>stream := None\<rparr>, ended := ended w \<union> set (getTracks s)\<rparr>)"
  by (simp add: stopCamera_def fold_track_stop_eq setStream_def split: option.split)

lemma stopCamera_twice: "stopCamera snap (stopCamera snap w) = stopCamera snap w"
  by (simp add: stopCamera_eq split: option.split)

lemma stopCamera_funpow: "(stopCamera snap ^^ Suc n) w = stopCamera snap w"
  by (induction n) (simp_all add: stopCamera_twice)

lemma release_twice: "release (release w) = release w"
  by (simp add: release_def stopCamera_eq split: option.split)

lemma release_funpow: "(release ^^ Suc n) w = release w"
  by (induction n) (simp_all add: release_twice)

text \<open>
  The cleanup of the mount effect calls the \<open>stopCamera\<close> of the first render, which saw
  no stream: whatever the present state, it changes nothing.
\<close>

lemma unmount_noop: "unmount w = w"
  by (simp add: unmount_def stopCamera_def initial_session_def)

text \<open>
  Camera requests are issued only in the scanning step, and the step is never written
  again: in every world that a run reaches, a stream in the session, or a camera request
  in flight, means that the step is \<open>Scanning\<close>.
\<close>

lemma fire_stream_step:
  assumes "stream (sess w) \<noteq> None \<or> 0 < camera_inflight w
             \<longrightarrow> currentStep (sess w) = Scanning"
  shows "stream (sess (fire p e w)) \<noteq> None \<or> 0 < camera_inflight (fire p e w)
           \<longrightarrow> currentStep (sess (fire p e w)) = Scanning"
  using assms
  by (cases e)
     (auto simp add: fire_def capture_defs setters effects Let_def advance_def view_defs
       handleConsentAccepted_def startCamera_def startCamera_resume_def
       split: sum.split fetch_result.split camera_result.split step.splits if_splits)

lemma stream_only_while_scanning:
  "stream (sess (run p evs initial_world)) \<noteq> None
     \<or> 0 < camera_inflight (run p evs initial_world)
     \<longrightarrow> currentStep (sess (run p evs initial_world)) = Scanning"
proof (induction evs rule: rev_induct)
  case Nil
  show ?case by (simp add: run_def initial_world_def initial_session_def)
next
  case (snoc e evs)
  then show ?case
    using fire_stream_step [of "run p evs initial_world" p e] by (simp add: run_def)
qed

text \<open>
  Called again with the same closure, once or \<open>n\<close> times more, \<open>stopCamera\<close> leaves the
  world as the first call left it.
\<close>

lemma stopCamera_idempotent:
  "stopCamera snap (stopCamera snap w) = stopCamera snap w
   \<and> (stopCamera snap ^^ Suc n) w = stopCamera snap w"
  by (simp add: stopCamera_twice stopCamera_funpow del: funpow.simps)

text \<open>No event of the mounted component ends a track: \<open>stopCamera\<close> has no caller there.\<close>

lemma fire_ended: "ended (fire p e w) = ended w"
  by (cases e)
     (auto simp add: fire_def capture_defs setters effects Let_def advance_def
       handleConsentAccepted_def startCamera_def startCamera_resume_def
       split: sum.split fetch_result.split camera_result.split)

lemma run_ended: "ended (run p evs w) = ended w"
proof (induction evs rule: rev_induct)
  case Nil
  show ?case by (simp add: run_def)
next
  case (snoc e evs)
  then show ?case using fire_ended [of p e "run p evs w"] by (simp add: run_def)
qed

text \<open>
  C6. The release operation is to stop and discard the stream handle whenever one is
  present, idempotently, and to be invoked on teardown in every step. Its only call is
  the one of the teardown. Evaluated there: after every run from the initial world the
  teardown call leaves the world as it is and no track has ended; at the session that
  has given consent and been granted the camera, the call (the \<open>stopCamera\<close> of the
  first render) returns the world unchanged, the stream handle is still in the session,
  and a second teardown call does not end its track either.
\<close>

theorem teardown_stops_nothing:
  "unmount (run p evs initial_world) = run p evs initial_world
   \<and> ended (unmount (run p evs initial_world)) = {}
   \<and> stream (sess scanning_world) = Some (MediaStream [0])
   \<and> stopCamera initial_session scanning_world = scanning_world
   \<and> stream (sess (unmount scanning_world)) = Some (MediaStream [0])
   \<and> 0 \<notin> ended (unmount (unmount scanning_world))"
proof -
  have "ended (run p evs initial_world) = {}"
    by (simp add: run_ended initial_world_def)
  moreover have "stream (sess scanning_world) = Some (MediaStream [0])"
    by (simp add: scanning_world_eq sample_stream_def)
  moreover have "ended scanning_world = {}"
    by (simp add: scanning_world_eq initial_world_def)
  moreover have "stopCamera initial_session scanning_world = scanning_world"
    by (simp add: stopCamera_def initial_session_def)
  ultimately show ?thesis by (simp add: unmount_noop)
qed

text \<open>
  C10. \<open>stopCamera\<close> writes no session field but \<open>stream\<close>: the step, \<open>isScanning\<close>,
  \<open>hasPermission\<close>, \<open>consentChecked\<close> and \<open>scannedFaceId\<close> are as before, for every
  closure and every world.
\<close>

theorem stopCamera_frame:
  "currentStep (sess (stopCamera snap w)) = currentStep (sess w)
   \<and> isScanning (sess (stopCamera snap w)) = isScanning (sess w)
   \<and> hasPermission (sess (stopCamera snap w)) = hasPermission (sess w)
   \<and> consentChecked (sess (stopCamera snap w)) = consentChecked (sess w)
   \<and> scannedFaceId (sess (stopCamera snap w)) = scannedFaceId (sess w)
   \<and> sess (stopCamera snap w) = (sess w)\<lparr>stream := stream (sess (stopCamera snap w))\<rparr>"
  by (simp add: stopCamera_eq split: option.split)

theorem stopCamera_frame_witness:
  "currentStep (sess (stopCamera (sess scanning_world) scanning_world)) = Scanning
   \<and> \<not> isScanning (sess (stopCamera (sess scanning_world) scanning_world))
   \<and> hasPermission (sess (stopCamera (sess scanning_world) scanning_world)) = Some True
   \<and> consentChecked (sess (stopCamera (sess scanning_world) scanning_world))
   \<and> scannedFaceId (sess (stopCamera (sess scanning_world) scanning_world)) = []"
proof -
  have a: "currentStep (sess scanning_world) = Scanning \<and> \<not> isScanning (sess scanning_world)
           \<and> hasPermission (sess scanning_world) = Some True
           \<and> consentChecked (sess scanning_world)
           \<and> scannedFaceId (sess scanning_world) = []"
    by (simp add: scanning_world_eq)
  show ?thesis
    using stopCamera_frame [where snap = "sess scanning_world" and w = scanning_world] a by simp
qed

text \<open>
  C9. The stream is to be released before the session is destroyed. Evaluated at the
  session that has given consent and been granted the camera: the stream handle is
  present, and teardown leaves the world as it was, the handle still in the session
  and its track not ended; the handler of the present render would have ended it.
\<close>

theorem unmount_leaves_stream:
  "currentStep (sess scanning_world) = Scanning
   \<and> hasPermission (sess scanning_world) = Some True
   \<and> stream (sess scanning_world) = Some (MediaStream [0])
   \<and> unmount scanning_world = scanning_world
   \<and> stream (sess (unmount scanning_world)) = Some (MediaStream [0])
   \<and> ended (unmount scanning_world) = {}
   \<and> ended (release scanning_world) = {0}"
  by (simp add: unmount_noop)
     (simp add: scanning_world_eq release_def stopCamera_eq sample_stream_def initial_world_def)

subsection \<open>Consent\<close>

text \<open>
  C2. In the consent step, \<open>handleConsentAccepted\<close> moves the step to \<open>Scanning\<close> exactly
  when the checkbox is checked, and issues one camera request exactly then; unchecked,
  handler and button press leave the world as it is, and the continue button is disabled
  exactly when the checkbox is unchecked.
\<close>

theorem consent_gate:
  assumes "currentStep (sess w) = Consent"
  shows "(currentStep (sess (handleConsentAccepted (sess w) w)) = Scanning)
           = consentChecked (sess w)
       \<and> (camera_calls (handleConsentAccepted (sess w) w) = camera_calls w @ [camera_constraints]
            \<and> camera_inflight (handleConsentAccepted (sess w) w) = Suc (camera_inflight w))
           = consentChecked (sess w)
       \<and> (\<not> consentChecked (sess w) \<longrightarrow> handleConsentAccepted (sess w) w = w)
       \<and> (\<not> consentChecked (sess w) \<longrightarrow> fire p ClickContinue w = w)
       \<and> (consentChecked (sess w) \<longrightarrow>
            fire p ClickContinue w = handleConsentAccepted (sess w) w)
       \<and> disabled (sess w) ContinueButton = (\<not> consentChecked (sess w))
       \<and> enabled (sess w) ContinueButton = consentChecked (sess w)"
  using assms
  by (simp add: handleConsentAccepted_def startCamera_def setCurrentStep_def fire_def view_defs)

theorem consent_gate_witness:
  "currentStep (sess initial_world) = Consent
   \<and> \<not> consentChecked (sess initial_world)
   \<and> handleConsentAccepted (sess initial_world) initial_world = initial_world
   \<and> fire sample_props ClickContinue initial_world = initial_world
   \<and> disabled (sess initial_world) ContinueButton
   \<and> currentStep (sess (setConsentChecked True initial_world)) = Consent
   \<and> consentChecked (sess (setConsentChecked True initial_world))
   \<and> currentStep (sess (fire sample_props ClickContinue (setConsentChecked True initial_world)))
       = Scanning
   \<and> camera_inflight (fire sample_props ClickContinue (setConsentChecked True initial_world)) = 1"
proof -
  have a: "currentStep (sess initial_world) = Consent"
    by (simp add: initial_world_def initial_session_def)
  have b: "currentStep (sess (setConsentChecked True initial_world)) = Consent"
    by (simp add: initial_world_def initial_session_def setConsentChecked_def)
  have c: "\<not> consentChecked (sess initial_world)"
    by (simp add: initial_world_def initial_session_def)
  have d: "consentChecked (sess (setConsentChecked True initial_world))"
    by (simp add: setConsentChecked_def)
  have e: "camera_inflight (setConsentChecked True initial_world) = 0"
    by (simp add: setConsentChecked_def initial_world_def)
  show ?thesis
    using consent_gate [OF a, where p = sample_props]
      consent_gate [OF b, where p = sample_props] a b c d e
    by simp
qed

subsection \<open>Camera acquisition\<close>

lemma enabled_capture:
  "enabled s CaptureButton =
     (currentStep s = Scanning \<and> hasPermission s \<noteq> Some False \<and> \<not> isScanning s
      \<and> stream s \<noteq> None)"
  by (auto simp add: view_defs split: step.split)

text \<open>
  C7. When the camera request is refused in the scanning step, \<open>hasPermission\<close> becomes
  \<open>false\<close>, the error notification is shown, the step is still \<open>Scanning\<close>, the screen
  is the permission dialog with an enabled retry button that calls \<open>startCamera\<close> again,
  and capture cannot be triggered; in every session without a stream the capture
  button is not enabled.
\<close>

theorem camera_denied:
  assumes "currentStep (sess w) = Scanning"
  shows "hasPermission (sess (startCamera_resume Denied w)) = Some False
       \<and> toasts (startCamera_resume Denied w) = toasts w @ [ToastError CameraUnavailable]
       \<and> currentStep (sess (startCamera_resume Denied w)) = Scanning
       \<and> render (sess (startCamera_resume Denied w)) = PermissionDialog
       \<and> enabled (sess (startCamera_resume Denied w)) RetryButton
       \<and> fire p ClickRetry (startCamera_resume Denied w)
           = startCamera (startCamera_resume Denied w)
       \<and> \<not> enabled (sess (startCamera_resume Denied w)) CaptureButton
       \<and> fire p (ClickCapture d) (startCamera_resume Denied w) = startCamera_resume Denied w
       \<and> (stream s = None \<longrightarrow> \<not> enabled s CaptureButton)"
  using assms
  by (simp add: enabled_capture fire_def)
     (simp add: startCamera_resume_def setters effects view_defs)

theorem camera_denied_witness:
  "currentStep (sess awaiting_camera_world) = Scanning
   \<and> stream (sess awaiting_camera_world) = None
   \<and> hasPermission (sess (startCamera_resume Denied awaiting_camera_world)) = Some False
   \<and> toasts (startCamera_resume Denied awaiting_camera_world) = [ToastError CameraUnavailable]
   \<and> render (sess (startCamera_resume Denied awaiting_camera_world)) = PermissionDialog
   \<and> camera_inflight
        (fire sample_props ClickRetry (startCamera_resume Denied awaiting_camera_world)) = 1
   \<and> \<not> enabled (sess awaiting_camera_world) CaptureButton"
proof -
  have a: "currentStep (sess awaiting_camera_world) = Scanning"
    by (simp add: awaiting_camera_world_eq)
  have b: "stream (sess awaiting_camera_world) = None"
    by (simp add: awaiting_camera_world_eq)
  have c: "toasts awaiting_camera_world = []"
    by (simp add: awaiting_camera_world_eq initial_world_def)
  have d: "camera_inflight (startCamera (startCamera_resume Denied awaiting_camera_world)) = 1"
    by (simp add: awaiting_camera_world_eq startCamera_def startCamera_resume_def setters
        effects)
  show ?thesis
    using camera_denied [OF a, where p = sample_props and d = sample_dom
        and s = "sess awaiting_camera_world"] a b c d
    by simp
qed

subsection \<open>The capture button\<close>

text \<open>
  A stream is stored only together with \<open>hasPermission = true\<close>, and \<open>hasPermission\<close>
  never returns to \<open>null\<close>: in every world that a run reaches, a stream in the session
  means that an answer of the camera has been recorded.
\<close>

lemma fire_permission:
  assumes "stream (sess w) \<noteq> None \<longrightarrow> hasPermission (sess w) \<noteq> None"
  shows "stream (sess (fire p e w)) \<noteq> None \<longrightarrow> hasPermission (sess (fire p e w)) \<noteq> None"
  using assms
  by (cases e)
     (auto simp add: fire_def capture_defs setters effects Let_def advance_def
       handleConsentAccepted_def startCamera_def startCamera_resume_def
       split: sum.split fetch_result.split camera_result.split)

lemma run_permission:
  "stream (sess (run p evs initial_world)) \<noteq> None
     \<longrightarrow> hasPermission (sess (run p evs initial_world)) \<noteq> None"
proof (induction evs rule: rev_induct)
  case Nil
  show ?case by (simp add: run_def initial_world_def initial_session_def)
next
  case (snoc e evs)
  then show ?case
    using fire_permission [of "run p evs initial_world" p e] by (simp add: run_def)
qed

text \<open>
  C5. On the scanning screen the capture button is disabled exactly while \<open>isScanning\<close>
  holds or the stream is \<open>null\<close>; where it is enabled there is a stream and no submission
  in flight; a capture click while it is not enabled leaves the world unchanged (no
  request is sent and none is queued); and in every world reached by a run from the
  initial one, an enabled capture button means that permission is granted.
\<close>

theorem capture_guard:
  "(render s = ScanningScreen \<longrightarrow>
      disabled s CaptureButton = (isScanning s \<or> stream s = None))
   \<and> (enabled s CaptureButton \<longrightarrow> stream s \<noteq> None \<and> \<not> isScanning s)
   \<and> (\<not> enabled (sess w) CaptureButton \<longrightarrow> fire p (ClickCapture d) w = w)
   \<and> (enabled (sess (run p evs initial_world)) CaptureButton \<longrightarrow>
        hasPermission (sess (run p evs initial_world)) = Some True)"
proof -
  have "render s = ScanningScreen \<longrightarrow>
          disabled s CaptureButton = (isScanning s \<or> stream s = None)"
    by (auto simp add: view_defs)
  moreover have "enabled s CaptureButton \<longrightarrow> stream s \<noteq> None \<and> \<not> isScanning s"
    by (simp add: enabled_capture)
  moreover have "\<not> enabled (sess w) CaptureButton \<longrightarrow> fire p (ClickCapture d) w = w"
    by (simp add: fire_def)
  moreover have "enabled (sess (run p evs initial_world)) CaptureButton \<longrightarrow>
                   hasPermission (sess (run p evs initial_world)) = Some True"
    using run_permission [of p evs] by (auto simp add: enabled_capture)
  ultimately show ?thesis by blast
qed

theorem capture_guard_witness:
  "enabled (sess scanning_world) CaptureButton
   \<and> stream (sess scanning_world) \<noteq> None
   \<and> \<not> isScanning (sess scanning_world)
   \<and> hasPermission (sess scanning_world) = Some True
   \<and> render (sess scanning_world) = ScanningScreen
   \<and> \<not> disabled (sess scanning_world) CaptureButton
   \<and> \<not> enabled (sess awaiting_camera_world) CaptureButton
   \<and> fire sample_props (ClickCapture sample_dom) awaiting_camera_world = awaiting_camera_world"
proof -
  have a: "enabled (sess scanning_world) CaptureButton"
    by (simp add: scanning_world_eq view_defs)
  have b: "render (sess scanning_world) = ScanningScreen"
    by (simp add: scanning_world_eq render_def)
  have c: "\<not> enabled (sess awaiting_camera_world) CaptureButton"
    by (simp add: awaiting_camera_world_eq view_defs)
  have d: "\<not> isScanning (sess scanning_world) \<and> stream (sess scanning_world) \<noteq> None"
    by (simp add: scanning_world_eq)
  show ?thesis
    using capture_guard [where s = "sess scanning_world" and w = awaiting_camera_world
        and p = sample_props and d = sample_dom
        and evs = "[Check True, ClickContinue, CameraAnswer (Granted sample_stream)]",
        folded scanning_world_def] a b c d
    by simp
qed

subsection \<open>Capture and submission\<close>

text \<open>No statement of \<open>captureAndScanFace\<close> writes the step.\<close>

lemma captureAndScanFace_step:
  "currentStep (sess (captureAndScanFace p d r w)) = currentStep (sess w)"
  by (simp add: capture_defs setters effects Let_def split: sum.split fetch_result.split)

lemma fire_step:
  assumes "currentStep (sess w) \<noteq> Completed"
  shows "currentStep (sess (fire p e w)) \<noteq> Completed"
  using assms
  by (cases e)
     (auto simp add: fire_def capture_defs setters effects Let_def advance_def
       handleConsentAccepted_def startCamera_def startCamera_resume_def
       split: sum.split fetch_result.split camera_result.split)

text \<open>The only step ever written is \<open>Scanning\<close>: no run reaches the completed screen.\<close>

lemma completed_unreachable: "currentStep (sess (run p evs initial_world)) \<noteq> Completed"
proof (induction evs rule: rev_induct)
  case Nil
  show ?case by (simp add: run_def initial_world_def initial_session_def)
next
  case (snoc e evs)
  then show ?case
    using fire_step [of "run p evs initial_world" p e] by (simp add: run_def)
qed

text \<open>
  C1. On the answer \<open>{status: "success", face_id: "abc123"}\<close> in the scanning step the
  session is to store the identifier, move to \<open>Completed\<close> and have \<open>onAutoCheckIn\<close> run
  once after one second. Evaluated at the session with consent given and the camera
  granted: the identifier is stored, the success notification is shown, one timer for
  \<open>onAutoCheckIn\<close> is due at 1000 ms (not run after 999 ms, run once after 1000 ms), and
  the step is still \<open>Scanning\<close>, the screen still the scanning screen.
\<close>

theorem success_does_not_complete:
  "currentStep (sess scanning_world) = Scanning
   \<and> (let w = captureAndScanFace sample_props sample_dom
                (Parsed \<lparr>status = ''success'', face_id = ''abc123''\<rparr>) scanning_world
      in currentStep (sess w) = Scanning
         \<and> currentStep (sess w) \<noteq> Completed
         \<and> render (sess w) = ScanningScreen
         \<and> scannedFaceId (sess w) = ''abc123''
         \<and> toasts w = [ToastSuccess FaceSaved]
         \<and> timers w = [(1000, OnAutoCheckIn)]
         \<and> invoked (advance 999 w) = []
         \<and> invoked (advance 1000 w) = [OnAutoCheckIn])"
  by (simp add: scanning_world_eq capture_defs capture_frame_sample setters effects
      advance_def render_def initial_world_def Let_def)

text \<open>
  C3. When the invocation does not end in the success branch (frame capture throws, the
  network call or the reading of the body throws, or the status is not \<open>"success"\<close>), a
  session in the scanning step stays there, \<open>scannedFaceId\<close> is as before, \<open>isScanning\<close>
  is \<open>false\<close>, no timer is set and no callback called, and exactly one error notification
  has been added: the exception ends in the \<open>catch\<close> block.
\<close>

theorem failure_keeps_scanning:
  assumes "currentStep (sess w) = Scanning" and "\<not> succeeds d r"
  shows "currentStep (sess (captureAndScanFace p d r w)) = Scanning
       \<and> scannedFaceId (sess (captureAndScanFace p d r w)) = scannedFaceId (sess w)
       \<and> \<not> isScanning (sess (captureAndScanFace p d r w))
       \<and> (toasts (captureAndScanFace p d r w) = toasts w @ [ToastError ScanFailed]
          \<or> toasts (captureAndScanFace p d r w) = toasts w @ [ToastError FaceNotSaved])
       \<and> timers (captureAndScanFace p d r w) = timers w
       \<and> invoked (captureAndScanFace p d r w) = invoked w"
  using assms
  by (auto simp add: capture_defs setters effects accepted_def succeeds_def Let_def
      split: sum.splits fetch_result.splits)

theorem failure_keeps_scanning_witness:
  "currentStep (sess scanning_world) = Scanning
   \<and> \<not> succeeds sample_dom (Parsed \<lparr>status = ''error'', face_id = []\<rparr>)
   \<and> \<not> succeeds sample_dom FetchRejected
   \<and> currentStep (sess (captureAndScanFace sample_props sample_dom
        (Parsed \<lparr>status = ''error'', face_id = []\<rparr>) scanning_world)) = Scanning
   \<and> scannedFaceId (sess (captureAndScanFace sample_props sample_dom
        (Parsed \<lparr>status = ''error'', face_id = []\<rparr>) scanning_world)) = []
   \<and> \<not> isScanning (sess (captureAndScanFace sample_props sample_dom
        (Parsed \<lparr>status = ''error'', face_id = []\<rparr>) scanning_world))
   \<and> timers (captureAndScanFace sample_props sample_dom
        (Parsed \<lparr>status = ''error'', face_id = []\<rparr>) scanning_world) = []
   \<and> currentStep (sess (captureAndScanFace sample_props sample_dom FetchRejected
        scanning_world)) = Scanning
   \<and> scannedFaceId (sess (captureAndScanFace sample_props sample_dom FetchRejected
        scanning_world)) = []"
proof -
  have a: "currentStep (sess scanning_world) = Scanning"
    by (simp add: scanning_world_eq)
  have b: "\<not> succeeds sample_dom (Parsed \<lparr>status = ''error'', face_id = []\<rparr>)"
    by (simp add: succeeds_def capture_frame_sample accepted_def)
  have b': "\<not> succeeds sample_dom FetchRejected"
    by (simp add: succeeds_def capture_frame_sample accepted_def)
  have c: "scannedFaceId (sess scanning_world) = [] \<and> timers scanning_world = []"
    by (simp add: scanning_world_eq initial_world_def)
  show ?thesis
    using failure_keeps_scanning [OF a b, where p = sample_props]
      failure_keeps_scanning [OF a b', where p = sample_props] a b b' c
    by simp
qed

text \<open>
  C4. \<open>isScanning\<close> is set to \<open>true\<close> at entry: when frame capture yields an image, the
  invocation is suspended at the network call in a world where \<open>isScanning\<close> holds (and
  so the click on the enabled capture button leaves \<open>isScanning\<close> set and the button
  disabled until the answer). It is \<open>false\<close> at the end of every invocation: when frame
  capture throws, when the network answers with anything, and so for the whole
  invocation.
\<close>

theorem submitting_flag:
  "(capture_frame d = Inr img \<longrightarrow>
      captureAndScanFace_start p d w
        = AwaitingFetch (fetch (scan_request p img) (setIsScanning True w))
      \<and> (\<exists>w1. captureAndScanFace_start p d w = AwaitingFetch w1
               \<and> isScanning (sess w1)
               \<and> \<not> isScanning (sess (captureAndScanFace_resume r w1))))
   \<and> (capture_frame d = Inl e \<longrightarrow>
        (\<exists>w1. captureAndScanFace_start p d w = Finished w1 \<and> \<not> isScanning (sess w1)))
   \<and> (enabled (sess w) CaptureButton \<and> capture_frame d = Inr img \<longrightarrow>
        isScanning (sess (fire p (ClickCapture d) w))
        \<and> \<not> enabled (sess (fire p (ClickCapture d) w)) CaptureButton
        \<and> \<not> isScanning (sess (fire p (FetchAnswer r) (fire p (ClickCapture d) w))))
   \<and> (case captureAndScanFace_start p d w of
        AwaitingFetch w1 \<Rightarrow>
          isScanning (sess w1) \<and> \<not> isScanning (sess (captureAndScanFace_resume r w1))
      | Finished w1 \<Rightarrow> \<not> isScanning (sess w1))
   \<and> isScanning (sess (setIsScanning True w))
   \<and> \<not> isScanning (sess (captureAndScanFace p d r w))"
proof -
  have start: "capture_frame d = Inr img \<longrightarrow>
      captureAndScanFace_start p d w
        = AwaitingFetch (fetch (scan_request p img) (setIsScanning True w))"
    by (simp add: captureAndScanFace_start_def)
  have flag: "isScanning (sess (fetch (scan_request p img) (setIsScanning True w)))"
    by (simp add: fetch_def setIsScanning_def)
  have inflight: "0 < fetch_inflight (fetch (scan_request p img) (setIsScanning True w))"
    by (simp add: fetch_def setIsScanning_def)
  have resume: "\<not> isScanning (sess (captureAndScanFace_resume r w'))" for w'
    by (simp add: capture_defs setters effects Let_def split: fetch_result.split)
  have thrown: "capture_frame d = Inl e \<longrightarrow>
        (\<exists>w1. captureAndScanFace_start p d w = Finished w1 \<and> \<not> isScanning (sess w1))"
    by (simp add: capture_defs setters effects)
  have click: "enabled (sess w) CaptureButton \<and> capture_frame d = Inr img \<longrightarrow>
        fire p (ClickCapture d) w = fetch (scan_request p img) (setIsScanning True w)"
    by (simp add: fire_def captureAndScanFace_start_def)
  have ui: "enabled (sess w) CaptureButton \<and> capture_frame d = Inr img \<longrightarrow>
        isScanning (sess (fire p (ClickCapture d) w))
        \<and> \<not> enabled (sess (fire p (ClickCapture d) w)) CaptureButton
        \<and> \<not> isScanning (sess (fire p (FetchAnswer r) (fire p (ClickCapture d) w)))"
    using click flag inflight resume
    by (auto simp add: enabled_capture) (simp add: fire_def)
  have old: "(case captureAndScanFace_start p d w of
        AwaitingFetch w1 \<Rightarrow>
          isScanning (sess w1) \<and> \<not> isScanning (sess (captureAndScanFace_resume r w1))
      | Finished w1 \<Rightarrow> \<not> isScanning (sess w1))
   \<and> isScanning (sess (setIsScanning True w))
   \<and> \<not> isScanning (sess (captureAndScanFace p d r w))"
    by (simp add: capture_defs setters effects Let_def
        split: sum.split fetch_result.split)
  show ?thesis
    using start flag resume thrown ui old by simp
qed

theorem submitting_flag_witness:
  "capture_frame sample_dom = Inr ''data:image/jpeg;base64,AAAA''
   \<and> enabled (sess scanning_world) CaptureButton
   \<and> \<not> isScanning (sess scanning_world)
   \<and> (\<exists>w1. captureAndScanFace_start sample_props sample_dom scanning_world = AwaitingFetch w1
            \<and> isScanning (sess w1)
            \<and> \<not> isScanning (sess (captureAndScanFace_resume FetchRejected w1)))
   \<and> isScanning (sess (fire sample_props (ClickCapture sample_dom) scanning_world))
   \<and> \<not> isScanning (sess (fire sample_props (FetchAnswer FetchRejected)
          (fire sample_props (ClickCapture sample_dom) scanning_world)))
   \<and> capture_frame no_video_dom = Inl TypeError
   \<and> (\<exists>w1. captureAndScanFace_start sample_props no_video_dom scanning_world = Finished w1
            \<and> \<not> isScanning (sess w1))
   \<and> \<not> isScanning (sess (captureAndScanFace sample_props sample_dom FetchRejected scanning_world))"
proof -
  have a: "capture_frame sample_dom = Inr ''data:image/jpeg;base64,AAAA''"
    by (rule capture_frame_sample)
  have b: "enabled (sess scanning_world) CaptureButton"
    by (simp add: scanning_world_eq view_defs)
  have c: "\<not> isScanning (sess scanning_world)"
    by (simp add: scanning_world_eq)
  have d: "capture_frame no_video_dom = Inl TypeError"
    by (rule capture_frame_no_video)
  note t1 = submitting_flag [where p = sample_props and d = sample_dom and w = scanning_world
      and r = FetchRejected and img = "''data:image/jpeg;base64,AAAA''" and e = TypeError]
  note t2 = submitting_flag [where p = sample_props and d = no_video_dom and w = scanning_world
      and r = FetchRejected and img = "''data:image/jpeg;base64,AAAA''" and e = TypeError]
  have s1: "\<exists>w1. captureAndScanFace_start sample_props sample_dom scanning_world = AwaitingFetch w1
            \<and> isScanning (sess w1)
            \<and> \<not> isScanning (sess (captureAndScanFace_resume FetchRejected w1))"
    using t1 a by blast
  have s2: "isScanning (sess (fire sample_props (ClickCapture sample_dom) scanning_world))
            \<and> \<not> isScanning (sess (fire sample_props (FetchAnswer FetchRejected)
                  (fire sample_props (ClickCapture sample_dom) scanning_world)))"
    using t1 a b by blast
  have s3: "\<exists>w1. captureAndScanFace_start sample_props no_video_dom scanning_world = Finished w1
            \<and> \<not> isScanning (sess w1)"
    using t2 d by blast
  have s4: "\<not> isScanning (sess (captureAndScanFace sample_props sample_dom FetchRejected
              scanning_world))"
    using t1 by blast
  show ?thesis
    using a b c d s1 s2 s3 s4 by blast
qed

text \<open>
  C8. When frame capture yields an image, exactly one request is sent: a \<open>POST\<close> to
  \<open>/api/scan-face\<close> with a JSON content type, whose body has the field \<open>image\<close>, the
  string \<open>toDataURL('image/jpeg')\<close> of the canvas that has the size of the video and its
  frame painted on it, and the field \<open>visitorInfo\<close>
  with \<open>name\<close>, \<open>company\<close>, \<open>visiting\<close> and \<open>visitorType\<close>. Those four are the supplied
  \<open>visitorInfo\<close> when there is one, and otherwise \<open>visitorName\<close>, two empty strings and
  \<open>"regular"\<close>. A parsed answer whose status is not \<open>"success"\<close> is a failure: the error
  notification, no identifier stored, no timer set.
\<close>

theorem scan_request_shape:
  "(capture_frame d = Inr img \<longrightarrow>
      captureAndScanFace_start p d w
        = AwaitingFetch (fetch (scan_request p img) (setIsScanning True w))
      \<and> fetches (captureAndScanFace p d r w) = fetches w @ [scan_request p img]
      \<and> (\<exists>v. query_video d = Some v
             \<and> img = toDataURL d ''image/jpeg''
                     \<lparr>canvas_width = videoWidth v, canvas_height = videoHeight v,
                      painted = Some v\<rparr>))
   \<and> url (scan_request p img) = ''http://localhost:5000'' @ ''/api/scan-face''
   \<and> http_method (scan_request p img) = ''POST''
   \<and> headers (scan_request p img) = [(''Content-Type'', ''application/json'')]
   \<and> body (scan_request p img)
       = JObject [(''image'', JString img),
                  (''visitorInfo'',
                   JObject [(''name'', JString (name (payload_visitor p))),
                            (''company'', JString (company (payload_visitor p))),
                            (''visiting'', JString (visiting (payload_visitor p))),
                            (''visitorType'', JString (visitorType (payload_visitor p)))])]
   \<and> (visitorInfo p = None \<longrightarrow>
        payload_visitor p
          = \<lparr>name = visitorName p, company = [], visiting = [], visitorType = ''regular''\<rparr>)
   \<and> (visitorInfo p = Some v \<longrightarrow> payload_visitor p = v)
   \<and> (capture_frame d = Inr img \<and> status data \<noteq> ''success'' \<longrightarrow>
        toasts (captureAndScanFace p d (Parsed data) w) = toasts w @ [ToastError FaceNotSaved]
        \<and> scannedFaceId (sess (captureAndScanFace p d (Parsed data) w)) = scannedFaceId (sess w)
        \<and> timers (captureAndScanFace p d (Parsed data) w) = timers w)"
proof -
  have "capture_frame d = Inr img \<longrightarrow>
          captureAndScanFace_start p d w
            = AwaitingFetch (fetch (scan_request p img) (setIsScanning True w))
          \<and> fetches (captureAndScanFace p d r w) = fetches w @ [scan_request p img]
          \<and> (\<exists>v. query_video d = Some v
             \<and> img = toDataURL d ''image/jpeg''
                     \<lparr>canvas_width = videoWidth v, canvas_height = videoHeight v,
                      painted = Some v\<rparr>)"
    by (auto simp add: capture_defs setters effects capture_frame_def Let_def
        split: option.splits if_splits fetch_result.split)
  moreover have "capture_frame d = Inr img \<and> status data \<noteq> ''success'' \<longrightarrow>
        toasts (captureAndScanFace p d (Parsed data) w) = toasts w @ [ToastError FaceNotSaved]
        \<and> scannedFaceId (sess (captureAndScanFace p d (Parsed data) w)) = scannedFaceId (sess w)
        \<and> timers (captureAndScanFace p d (Parsed data) w) = timers w"
    by (simp add: capture_defs setters effects Let_def)
  moreover have "visitorInfo p = None \<longrightarrow>
        payload_visitor p
          = \<lparr>name = visitorName p, company = [], visiting = [], visitorType = ''regular''\<rparr>"
    by (simp add: payload_visitor_def)
  moreover have "visitorInfo p = Some v \<longrightarrow> payload_visitor p = v"
    by (simp add: payload_visitor_def)
  ultimately show ?thesis
    by (simp add: scan_request_def visitor_json_def)
qed

theorem scan_request_shape_witness:
  "capture_frame sample_dom = Inr ''data:image/jpeg;base64,AAAA''
   \<and> fetches (captureAndScanFace sample_props sample_dom FetchRejected scanning_world)
       = [scan_request sample_props ''data:image/jpeg;base64,AAAA'']
   \<and> visitorInfo sample_props = None
   \<and> payload_visitor sample_props
       = \<lparr>name = ''Ada'', company = [], visiting = [], visitorType = ''regular''\<rparr>
   \<and> visitorInfo (sample_props\<lparr>visitorInfo := Some sample_visitor\<rparr>) = Some sample_visitor
   \<and> payload_visitor (sample_props\<lparr>visitorInfo := Some sample_visitor\<rparr>) = sample_visitor
   \<and> status \<lparr>status = ''error'', face_id = []\<rparr> \<noteq> ''success''
   \<and> toasts (captureAndScanFace sample_props sample_dom
        (Parsed \<lparr>status = ''error'', face_id = []\<rparr>) scanning_world)
       = [ToastError FaceNotSaved]"
proof -
  have a: "capture_frame sample_dom = Inr ''data:image/jpeg;base64,AAAA''"
    by (rule capture_frame_sample)
  have b: "visitorInfo sample_props = None \<and> visitorName sample_props = ''Ada''"
    by (simp add: sample_props_def)
  have c: "fetches scanning_world = [] \<and> toasts scanning_world = []"
    by (simp add: scanning_world_eq initial_world_def)
  show ?thesis
    using scan_request_shape [where d = sample_dom and img = "''data:image/jpeg;base64,AAAA''"
        and p = sample_props and w = scanning_world and r = FetchRejected
        and v = sample_visitor and data = "\<lparr>status = ''error'', face_id = []\<rparr>"]
      scan_request_shape [where d = sample_dom and img = "''data:image/jpeg;base64,AAAA''"
        and p = "sample_props\<lparr>visitorInfo := Some sample_visitor\<rparr>" and w = scanning_world
        and r = FetchRejected and v = sample_visitor
        and data = "\<lparr>status = ''error'', face_id = []\<rparr>"]
      a b c
    by simp
qed

end
